theory Spec2Isabelle
  imports Main
begin

section \<open>The sequential bot of pitaya-bot (bot/sequential.go)\<close>

text \<open>
  The theory embeds \<^verbatim>\<open>bot/sequential.go\<close>: the struct \<^verbatim>\<open>SequentialBot\<close> and its
  methods \<^verbatim>\<open>Run\<close>, \<^verbatim>\<open>runOperation\<close>, \<^verbatim>\<open>runRequest\<close>, \<^verbatim>\<open>runNotify\<close>,
  \<^verbatim>\<open>runFunction\<close>, \<^verbatim>\<open>listenToPush\<close>, \<^verbatim>\<open>Connect\<close>, \<^verbatim>\<open>Disconnect\<close>,
  \<^verbatim>\<open>Reconnect\<close> and the constructor \<^verbatim>\<open>NewSequentialBot\<close>.

  The file calls collaborators that live in other files of the package: the
  helpers \<^verbatim>\<open>buildArgs\<close>, \<^verbatim>\<open>validateExpectations\<close>, \<^verbatim>\<open>storeData\<close>,
  \<^verbatim>\<open>sendRequest\<close>, \<^verbatim>\<open>sendNotify\<close>, \<^verbatim>\<open>NewExpectError\<close>, the type
  \<^verbatim>\<open>PClient\<close> and the type \<^verbatim>\<open>models.Operation\<close>. What they compute is a
  parameter of the model (the record \<open>env\<close>); what they are allowed to touch is
  taken from the specification and said at each definition.

  Go's \<^verbatim>\<open>error\<close> results are \<open>error option\<close> (\<open>None\<close> is \<^verbatim>\<open>nil\<close>). A method
  call ends in one of three ways: it returns, the process exits
  (\<^verbatim>\<open>logger.Fatal\<close> of logrus logs and then calls \<^verbatim>\<open>os.Exit(1)\<close>, so deferred
  calls do not run), or it panics on a nil \<^verbatim>\<open>*PClient\<close>.
  Logging at the levels Debug and Error and the metrics reporters have no
  effect on the control flow and are left out.
\<close>

subsection \<open>Values, errors, operations\<close>

text \<open>Dynamic values of Go's \<^verbatim>\<open>interface{}\<close>, as they come out of a JSON scenario.\<close>

datatype val =
    VNil
  | VBool bool
  | VNum int
  | VString string
  | VList "val list"
  | VMap "(string \<times> val) list"

text \<open>
  Modelled from the spec: \<^verbatim>\<open>NewExpectError(err, rawResp, expect)\<close> is missing from the
  sources; the error it builds carries the raw response and the failed
  expectation, so \<open>NewExpectError\<close> is a constructor holding its three arguments.
  \<open>Errorf\<close> is \<^verbatim>\<open>fmt.Errorf\<close> with the message already formatted, and
  \<open>External\<close> is an error made by a collaborator.
\<close>

datatype error =
    Errorf string
  | NewExpectError error string val
  | External string

text \<open>
  Modelled from the spec: \<^verbatim>\<open>models.Operation\<close> is missing from the sources. The fields
  are the ones \<^verbatim>\<open>sequential.go\<close> reads: the kind, the route, the raw
  arguments, the expectation, the store mapping and the timeout of a listen.
\<close>

record Operation =
  Type :: string
  URI :: string
  Args :: "string \<rightharpoonup> val"
  Expect :: val
  Store :: val
  Timeout :: int

text \<open>
  Modelled from the spec: the type \<^verbatim>\<open>storage\<close> is missing from the sources; it is a
  single string-keyed namespace of structured values, created empty.
\<close>

type_synonym storage = "string \<rightharpoonup> val"

text \<open>The two settings that \<^verbatim>\<open>sequential.go\<close> reads from the viper configuration.\<close>

record config =
  server_host :: string
  server_tls :: bool

subsection \<open>Protocol clients and the world around the bot\<close>

text \<open>
  Modelled from the spec: the type \<^verbatim>\<open>PClient\<close> is missing from the sources. A client is
  built against a host, is \<open>Connected\<close> from its creation until
  \<^verbatim>\<open>Disconnect\<close> tears it down, and runs a push listener once
  \<^verbatim>\<open>StartListening\<close> was called. The connection state is owned by the bot alone.
\<close>

record PClient =
  pc_host :: string
  pc_tls :: bool
  pc_connected :: bool
  pc_listening :: bool

text \<open>A \<^verbatim>\<open>*PClient\<close> is a reference into the list of all clients created so far.\<close>

type_synonym ref = nat

text \<open>Every call that reaches a Protocol Client is recorded, in order.\<close>

datatype event =
    EvNewPClient string bool
  | EvStartListening ref
  | EvDisconnect ref
  | EvRequest ref string "string \<rightharpoonup> val"
  | EvNotify ref string "string \<rightharpoonup> val"
  | EvReceivePush ref string int

fun is_disconnect :: "event \<Rightarrow> bool" where
  "is_disconnect (EvDisconnect c) = True"
| "is_disconnect _ = False"

text \<open>
  The struct \<^verbatim>\<open>SequentialBot\<close>. The fields \<^verbatim>\<open>logger\<close> and
  \<^verbatim>\<open>metricsReporter\<close> are left out (see above); the field \<^verbatim>\<open>id\<close> is
  \<open>bot_id\<close>.
\<close>

record SequentialBot =
  client :: "ref option"
  config :: config
  bot_id :: int
  spec :: "Operation list"
  storage :: storage
  host :: string

text \<open>
  The bot together with the part of the world it acts on: the clients it has
  created, the state \<open>net\<close> of the remote side (of any type \<open>'n\<close>), and the trace
  of the calls made on Protocol Clients.
\<close>

record 'n system = SequentialBot +
  pclients :: "PClient list"
  net :: 'n
  trace :: "event list"

text \<open>
  The collaborators. The first three are the package's helpers; by the
  specification \<^verbatim>\<open>buildArgs\<close> and \<^verbatim>\<open>validateExpectations\<close> only read the
  storage, and \<^verbatim>\<open>storeData\<close> is its only writer (it returns the storage it
  leaves behind, also when it fails). The others are the remote side: each
  takes the state of the network and returns the next one.
\<close>

record 'n env =
  buildArgs :: "(string \<rightharpoonup> val) \<Rightarrow> storage \<Rightarrow> error + (string \<rightharpoonup> val)"
  validateExpectations :: "val \<Rightarrow> val \<Rightarrow> storage \<Rightarrow> error option"
  storeData :: "val \<Rightarrow> storage \<Rightarrow> val \<Rightarrow> error option \<times> storage"
  net_dial :: "'n \<Rightarrow> string \<Rightarrow> bool \<Rightarrow> error option \<times> 'n"
  net_listen :: "'n \<Rightarrow> ref \<Rightarrow> 'n"
  net_close :: "'n \<Rightarrow> ref \<Rightarrow> 'n"
  net_request :: "'n \<Rightarrow> ref \<Rightarrow> string \<Rightarrow> (string \<rightharpoonup> val) \<Rightarrow> (error + val \<times> string) \<times> 'n"
  net_notify :: "'n \<Rightarrow> ref \<Rightarrow> string \<Rightarrow> (string \<rightharpoonup> val) \<Rightarrow> error option \<times> 'n"
  net_push :: "'n \<Rightarrow> ref \<Rightarrow> string \<Rightarrow> int \<Rightarrow> (error + val) \<times> 'n"

text \<open>How a call ends.\<close>

datatype 'n result =
    Return "error option" "'n system"
  | Exit "'n system"
  | Panic "'n system"

fun state_of :: "'n result \<Rightarrow> 'n system" where
  "state_of (Return err b) = b"
| "state_of (Exit b) = b"
| "state_of (Panic b) = b"

text \<open>
  \<open>discard r k\<close>: a call whose returned error is not looked at, followed by
  \<open>k\<close>. An exit or a panic of the call ends the caller as well.
\<close>

fun discard :: "'n result \<Rightarrow> ('n system \<Rightarrow> 'n result) \<Rightarrow> 'n result" where
  "discard (Return err b) k = k b"
| "discard (Exit b) k = Exit b"
| "discard (Panic b) k = Panic b"

subsection \<open>The methods of \<^verbatim>\<open>PClient\<close> and the two send helpers\<close>

text \<open>
  Modelled from the spec: \<^verbatim>\<open>NewPClient(host, tls)\<close> is missing from the sources. It
  dials the host; on failure no client exists, on success the new client is
  connected and not yet listening.
\<close>

definition NewPClient ::
  "'n env \<Rightarrow> string \<Rightarrow> bool \<Rightarrow> 'n system \<Rightarrow> (error + ref) \<times> 'n system" where
  "NewPClient e h t b =
     (let b1 = b\<lparr>trace := trace b @ [EvNewPClient h t]\<rparr> in
      case net_dial e (net b) h t of
        (Some err, n) \<Rightarrow> (Inl err, b1\<lparr>net := n\<rparr>)
      | (None, n) \<Rightarrow>
          (Inr (length (pclients b)),
           b1\<lparr>net := n,
              pclients := pclients b @
                [\<lparr>pc_host = h, pc_tls = t, pc_connected = True, pc_listening = False\<rparr>]\<rparr>))"

text \<open>Modelled from the spec: \<^verbatim>\<open>PClient.Connected\<close> is missing from the sources.\<close>

definition PClient_Connected :: "ref \<Rightarrow> 'n system \<Rightarrow> bool" where
  "PClient_Connected c b = (c < length (pclients b) \<and> pc_connected (pclients b ! c))"

text \<open>
  Modelled from the spec: \<^verbatim>\<open>PClient.Disconnect\<close> is missing from the sources. It tears
  down the client and its push listener. (The bot only ever holds references to
  clients it has created; on a reference out of range the list update changes
  nothing.)
\<close>

definition PClient_Disconnect :: "'n env \<Rightarrow> ref \<Rightarrow> 'n system \<Rightarrow> 'n system" where
  "PClient_Disconnect e c b =
     b\<lparr>pclients := (pclients b)
                    [c := (pclients b ! c)\<lparr>pc_connected := False, pc_listening := False\<rparr>],
       net := net_close e (net b) c,
       trace := trace b @ [EvDisconnect c]\<rparr>"

text \<open>Modelled from the spec: \<^verbatim>\<open>PClient.StartListening\<close> is missing from the sources.\<close>

definition PClient_StartListening :: "'n env \<Rightarrow> ref \<Rightarrow> 'n system \<Rightarrow> 'n system" where
  "PClient_StartListening e c b =
     b\<lparr>pclients := (pclients b)[c := (pclients b ! c)\<lparr>pc_listening := True\<rparr>],
       net := net_listen e (net b) c,
       trace := trace b @ [EvStartListening c]\<rparr>"

text \<open>
  Modelled from the spec: \<^verbatim>\<open>PClient.ReceivePush(route, timeout)\<close> is missing from the
  sources. It blocks until a push on the route arrives or the timeout elapses.
\<close>

definition PClient_ReceivePush ::
  "'n env \<Rightarrow> ref \<Rightarrow> string \<Rightarrow> int \<Rightarrow> 'n system \<Rightarrow> (error + val) \<times> 'n system" where
  "PClient_ReceivePush e c route timeout b =
     (case net_push e (net b) c route timeout of
        (r, n) \<Rightarrow> (r, b\<lparr>net := n, trace := trace b @ [EvReceivePush c route timeout]\<rparr>))"

text \<open>
  Modelled from the spec: \<^verbatim>\<open>sendRequest(args, route, client, reporters)\<close> is missing
  from the sources. It is the synchronous call, giving the parsed and the raw
  response, or an error.
\<close>

definition sendRequest ::
  "'n env \<Rightarrow> (string \<rightharpoonup> val) \<Rightarrow> string \<Rightarrow> ref \<Rightarrow> 'n system
     \<Rightarrow> (error + val \<times> string) \<times> 'n system" where
  "sendRequest e args route c b =
     (case net_request e (net b) c route args of
        (r, n) \<Rightarrow> (r, b\<lparr>net := n, trace := trace b @ [EvRequest c route args]\<rparr>))"

text \<open>Modelled from the spec: \<^verbatim>\<open>sendNotify(args, route, client)\<close> is missing from the sources.\<close>

definition sendNotify ::
  "'n env \<Rightarrow> (string \<rightharpoonup> val) \<Rightarrow> string \<Rightarrow> ref \<Rightarrow> 'n system \<Rightarrow> error option \<times> 'n system" where
  "sendNotify e args route c b =
     (case net_notify e (net b) c route args of
        (r, n) \<Rightarrow> (r, b\<lparr>net := n, trace := trace b @ [EvNotify c route args]\<rparr>))"

subsection \<open>Connection lifecycle\<close>

text \<open>\<^verbatim>\<open>func (b *SequentialBot) Disconnect()\<close>: \<^verbatim>\<open>b.client.Disconnect()\<close>.\<close>

definition Disconnect :: "'n env \<Rightarrow> 'n system \<Rightarrow> 'n result" where
  "Disconnect e b =
     (case client b of
        None \<Rightarrow> Panic b
      | Some c \<Rightarrow> Return None (PClient_Disconnect e c b))"

text \<open>\<^verbatim>\<open>func (b *SequentialBot) startListening()\<close>: \<^verbatim>\<open>b.client.StartListening()\<close>.\<close>

definition startListening :: "'n env \<Rightarrow> 'n system \<Rightarrow> 'n result" where
  "startListening e b =
     (case client b of
        None \<Rightarrow> Panic b
      | Some c \<Rightarrow> Return None (PClient_StartListening e c b))"

text \<open>
  \<^verbatim>\<open>func (b *SequentialBot) Connect(hosts ...string) error\<close>. The host is
  overwritten first; then a connected client is fatal; then the client is made,
  assigned and set to listen.
\<close>

definition Connect :: "'n env \<Rightarrow> string list \<Rightarrow> 'n system \<Rightarrow> 'n result" where
  "Connect e hosts b =
     (let b1 = (case hosts of [] \<Rightarrow> b | h # _ \<Rightarrow> b\<lparr>host := h\<rparr>) in
      if (case client b1 of None \<Rightarrow> False | Some c \<Rightarrow> PClient_Connected c b1)
      then Exit b1
      else
        (case NewPClient e (host b1) (server_tls (config b1)) b1 of
           (Inl err, b2) \<Rightarrow> Return (Some err) b2
         | (Inr c, b2) \<Rightarrow>
             discard (startListening e (b2\<lparr>client := Some c\<rparr>)) (\<lambda>b3. Return None b3)))"

text \<open>\<^verbatim>\<open>func (b *SequentialBot) Reconnect()\<close>: the error of \<^verbatim>\<open>Connect\<close> is dropped.\<close>

definition Reconnect :: "'n env \<Rightarrow> 'n system \<Rightarrow> 'n result" where
  "Reconnect e b =
     discard (Disconnect e b) (\<lambda>b1.
     discard (Connect e [] b1) (\<lambda>b2. Return None b2))"

subsection \<open>The step handlers\<close>

text \<open>
  \<^verbatim>\<open>func (b *SequentialBot) runRequest(op *models.Operation) error\<close>: resolve
  the arguments, send, validate, store; the first error ends the step.
\<close>

definition runRequest :: "'n env \<Rightarrow> Operation \<Rightarrow> 'n system \<Rightarrow> 'n result" where
  "runRequest e op b =
     (let route = URI op in
      case buildArgs e (Args op) (storage b) of
        Inl err \<Rightarrow> Return (Some err) b
      | Inr args \<Rightarrow>
          (case client b of
             None \<Rightarrow> Panic b
           | Some c \<Rightarrow>
               (case sendRequest e args route c b of
                  (Inl err, b1) \<Rightarrow> Return (Some err) b1
                | (Inr (resp, rawResp), b1) \<Rightarrow>
                    (case validateExpectations e (Expect op) resp (storage b1) of
                       Some err \<Rightarrow> Return (Some (NewExpectError err rawResp (Expect op))) b1
                     | None \<Rightarrow>
                         (case storeData e (Store op) (storage b1) resp of
                            (Some err, st) \<Rightarrow> Return (Some err) (b1\<lparr>storage := st\<rparr>)
                          | (None, st) \<Rightarrow> Return None (b1\<lparr>storage := st\<rparr>))))))"

text \<open>\<^verbatim>\<open>func (b *SequentialBot) runNotify(op *models.Operation) error\<close>.\<close>

definition runNotify :: "'n env \<Rightarrow> Operation \<Rightarrow> 'n system \<Rightarrow> 'n result" where
  "runNotify e op b =
     (let route = URI op in
      case buildArgs e (Args op) (storage b) of
        Inl err \<Rightarrow> Return (Some err) b
      | Inr args \<Rightarrow>
          (case client b of
             None \<Rightarrow> Panic b
           | Some c \<Rightarrow>
               (case sendNotify e args route c b of
                  (Some err, b1) \<Rightarrow> Return (Some err) b1
                | (None, b1) \<Rightarrow> Return None b1)))"

text \<open>
  \<^verbatim>\<open>func (b *SequentialBot) runFunction(op *models.Operation) error\<close>. The
  three lifecycle methods are called as statements: what \<^verbatim>\<open>Connect\<close> returns is
  not looked at. The type assertion \<^verbatim>\<open>val.(string)\<close> holds for \<open>VString\<close> only.
\<close>

definition runFunction :: "'n env \<Rightarrow> Operation \<Rightarrow> 'n system \<Rightarrow> 'n result" where
  "runFunction e op b =
     (let fName = URI op in
      if fName = ''disconnect'' then
        discard (Disconnect e b) (\<lambda>b1. Return None b1)
      else if fName = ''connect'' then
        (let host0 = host b in
         case buildArgs e (Args op) (storage b) of
           Inl err \<Rightarrow> Return (Some err) b
         | Inr args \<Rightarrow>
             (let host1 = (case args ''host'' of
                             None \<Rightarrow> host0
                           | Some v \<Rightarrow> (case v of VString h \<Rightarrow> h | _ \<Rightarrow> host0)) in
              discard (Connect e [host1] b) (\<lambda>b1. Return None b1)))
      else if fName = ''reconnect'' then
        discard (Reconnect e b) (\<lambda>b1. Return None b1)
      else Return (Some (Errorf (''Unknown function: '' @ fName))) b)"

text \<open>\<^verbatim>\<open>func (b *SequentialBot) listenToPush(op *models.Operation) error\<close>.\<close>

definition listenToPush :: "'n env \<Rightarrow> Operation \<Rightarrow> 'n system \<Rightarrow> 'n result" where
  "listenToPush e op b =
     (case client b of
        None \<Rightarrow> Panic b
      | Some c \<Rightarrow>
          (case PClient_ReceivePush e c (URI op) (Timeout op) b of
             (Inl err, b1) \<Rightarrow> Return (Some err) b1
           | (Inr resp, b1) \<Rightarrow>
               (case validateExpectations e (Expect op) resp (storage b1) of
                  Some err \<Rightarrow> Return (Some err) b1
                | None \<Rightarrow>
                    (case storeData e (Store op) (storage b1) resp of
                       (Some err, st) \<Rightarrow> Return (Some err) (b1\<lparr>storage := st\<rparr>)
                     | (None, st) \<Rightarrow> Return None (b1\<lparr>storage := st\<rparr>)))))"

text \<open>\<^verbatim>\<open>func (b *SequentialBot) runOperation(op *models.Operation) error\<close>.\<close>

definition runOperation :: "'n env \<Rightarrow> Operation \<Rightarrow> 'n system \<Rightarrow> 'n result" where
  "runOperation e op b =
     (if Type op = ''request'' then runRequest e op b
      else if Type op = ''notify'' then runNotify e op b
      else if Type op = ''function'' then runFunction e op b
      else if Type op = ''listen'' then listenToPush e op b
      else Return (Some (Errorf (''Unknown type: '' @ Type op))) b)"

subsection \<open>Running a scenario\<close>

text \<open>The loop of \<^verbatim>\<open>Run\<close> over the steps.\<close>

fun runSteps :: "'n env \<Rightarrow> Operation list \<Rightarrow> 'n system \<Rightarrow> 'n result" where
  "runSteps e [] b = Return None b"
| "runSteps e (step # steps) b =
     (case runOperation e step b of
        Return (Some err) b1 \<Rightarrow> Return (Some err) b1
      | Return None b1 \<Rightarrow> runSteps e steps b1
      | Exit b1 \<Rightarrow> Exit b1
      | Panic b1 \<Rightarrow> Panic b1)"

text \<open>
  \<^verbatim>\<open>func (b *SequentialBot) Run() error\<close>. The deferred \<^verbatim>\<open>b.Disconnect()\<close>
  runs when the loop returns and when it panics, and not when the process
  exits; a panic of the loop goes on after the deferred call.
\<close>

definition Run :: "'n env \<Rightarrow> 'n system \<Rightarrow> 'n result" where
  "Run e b =
     (case runSteps e (spec b) b of
        Return err b1 \<Rightarrow> discard (Disconnect e b1) (\<lambda>b2. Return err b2)
      | Panic b1 \<Rightarrow> discard (Disconnect e b1) (\<lambda>b2. Panic b2)
      | Exit b1 \<Rightarrow> Exit b1)"

definition Initialize :: "'n system \<Rightarrow> 'n result" where
  "Initialize b = Return None b"

definition Finalize :: "'n system \<Rightarrow> 'n result" where
  "Finalize b = Return None b"

text \<open>
  Modelled from the spec: \<^verbatim>\<open>newStorage\<close> is missing from the sources; the storage is
  created fresh, with no key set.
\<close>

definition newStorage :: "config \<Rightarrow> storage" where
  "newStorage cfg = Map.empty"

text \<open>
  \<^verbatim>\<open>NewSequentialBot\<close>, in a world with no client yet and the network in state
  \<open>n\<close>. \<open>Return (Some err) b\<close> stands for the result \<^verbatim>\<open>(nil, err)\<close>: no bot is
  handed out then.
\<close>

definition NewSequentialBot ::
  "'n env \<Rightarrow> config \<Rightarrow> Operation list \<Rightarrow> int \<Rightarrow> 'n \<Rightarrow> 'n result" where
  "NewSequentialBot e cfg sp i n =
     (let bot = \<lparr>client = None, config = cfg, bot_id = i, spec = sp,
                 storage = newStorage cfg, host = server_host cfg,
                 pclients = [], net = n, trace = []\<rparr> in
      case Connect e [] bot of
        Return (Some err) b \<Rightarrow> Return (Some err) b
      | Return None b \<Rightarrow> Return None b
      | Exit b \<Rightarrow> Exit b
      | Panic b \<Rightarrow> Panic b)"

subsection \<open>Live clients and reachable states\<close>

text \<open>The clients that are connected, among all the clients created so far.\<close>

definition live :: "'n system \<Rightarrow> ref list" where
  "live b = filter (\<lambda>c. PClient_Connected c b) [0..<length (pclients b)]"

text \<open>At most one client is live, and a live client is the one the bot holds.\<close>

definition at_most_one_live :: "'n system \<Rightarrow> bool" where
  "at_most_one_live b = (length (live b) \<le> 1 \<and> set (live b) \<subseteq> set_option (client b))"

text \<open>
  The states a bot can be in between calls: it is made by
  \<^verbatim>\<open>NewSequentialBot\<close>, and then any of its methods may be called, any number
  of times, as long as the calls return.
\<close>

inductive reachable :: "'n env \<Rightarrow> 'n system \<Rightarrow> bool" for e :: "'n env" where
  reach_new: "NewSequentialBot e cfg sp i n = Return None b \<Longrightarrow> reachable e b"
| reach_Connect: "reachable e b \<Longrightarrow> Connect e hosts b = Return err b' \<Longrightarrow> reachable e b'"
| reach_Disconnect: "reachable e b \<Longrightarrow> Disconnect e b = Return err b' \<Longrightarrow> reachable e b'"
| reach_Reconnect: "reachable e b \<Longrightarrow> Reconnect e b = Return err b' \<Longrightarrow> reachable e b'"
| reach_runOperation:
    "reachable e b \<Longrightarrow> runOperation e op b = Return err b' \<Longrightarrow> reachable e b'"
| reach_Run: "reachable e b \<Longrightarrow> Run e b = Return err b' \<Longrightarrow> reachable e b'"

text \<open>The same outcome, with the storage replaced by \<open>st\<close>.\<close>

fun put_storage :: "storage \<Rightarrow> 'n result \<Rightarrow> 'n result" where
  "put_storage st (Return err b) = Return err (b\<lparr>storage := st\<rparr>)"
| "put_storage st (Exit b) = Exit (b\<lparr>storage := st\<rparr>)"
| "put_storage st (Panic b) = Panic (b\<lparr>storage := st\<rparr>)"

subsection \<open>A concrete environment and a concrete bot\<close>

text \<open>
  A remote side that answers every request with \<open>pong\<close>, pushes \<open>pushed\<close>, and
  refuses connections to the host \<open>down\<close>; arguments are passed through, an
  expectation holds when it equals the response, and every response is stored
  under \<open>last\<close>. The state of this network counts the connections made.
\<close>

definition env0 :: "nat env" where
  "env0 = \<lparr>buildArgs = (\<lambda>args st. Inr args),
           validateExpectations =
             (\<lambda>expect resp st. if expect = resp then None else Some (External ''mismatch'')),
           storeData = (\<lambda>sp st resp. (None, st(''last'' \<mapsto> resp))),
           net_dial = (\<lambda>n h t. if h = ''down'' then (Some (External ''dial failed''), n)
                                  else (None, Suc n)),
           net_listen = (\<lambda>n c. n),
           net_close = (\<lambda>n c. n),
           net_request = (\<lambda>n c route args. (Inr (VString ''pong'', ''raw pong''), n)),
           net_notify = (\<lambda>n c route args. (None, n)),
           net_push = (\<lambda>n c route timeout. (Inr (VString ''pushed''), n))\<rparr>"

definition cfg0 :: config where
  "cfg0 = \<lparr>server_host = ''game'', server_tls = False\<rparr>"

definition op0 :: Operation where
  "op0 = \<lparr>Type = ''request'', URI = ''room.join'', Args = Map.empty,
          Expect = VString ''pong'', Store = VNil, Timeout = 0\<rparr>"

text \<open>The bot that \<open>NewSequentialBot env0 cfg0 [] 1 0\<close> returns.\<close>

definition bot0 :: "nat system" where
  "bot0 = \<lparr>client = Some 0, config = cfg0, bot_id = 1, spec = [], storage = Map.empty,
           host = ''game'',
           pclients = [\<lparr>pc_host = ''game'', pc_tls = False, pc_connected = True,
                        pc_listening = True\<rparr>],
           net = 1, trace = [EvNewPClient ''game'' False, EvStartListening 0]\<rparr>"

section \<open>Auxiliary lemmas\<close>

subsection \<open>What the calls on a Protocol Client change\<close>

lemma NewPClient_frame:
  "NewPClient e h t b = (r, b') \<Longrightarrow>
     client b' = client b \<and> storage b' = storage b \<and> host b' = host b \<and>
     config b' = config b \<and> spec b' = spec b \<and> trace b' = trace b @ [EvNewPClient h t]"
  by (auto simp: NewPClient_def Let_def split: prod.splits option.splits)

lemma NewPClient_pclients:
  "NewPClient e h t b = (Inl err, b') \<Longrightarrow> pclients b' = pclients b"
  "NewPClient e h t b = (Inr c, b') \<Longrightarrow>
     c = length (pclients b) \<and>
     pclients b' = pclients b @ [\<lparr>pc_host = h, pc_tls = t, pc_connected = True, pc_listening = False\<rparr>]"
  by (auto simp: NewPClient_def Let_def split: prod.splits option.splits)

lemma sendRequest_frame:
  "sendRequest e args route c b = (r, b') \<Longrightarrow>
     client b' = client b \<and> storage b' = storage b \<and> host b' = host b \<and>
     config b' = config b \<and> spec b' = spec b \<and> pclients b' = pclients b \<and>
     trace b' = trace b @ [EvRequest c route args]"
  by (auto simp: sendRequest_def split: prod.splits)

lemma sendNotify_frame:
  "sendNotify e args route c b = (r, b') \<Longrightarrow>
     client b' = client b \<and> storage b' = storage b \<and> host b' = host b \<and>
     config b' = config b \<and> spec b' = spec b \<and> pclients b' = pclients b \<and>
     trace b' = trace b @ [EvNotify c route args]"
  by (auto simp: sendNotify_def split: prod.splits)

lemma ReceivePush_frame:
  "PClient_ReceivePush e c route timeout b = (r, b') \<Longrightarrow>
     client b' = client b \<and> storage b' = storage b \<and> host b' = host b \<and>
     config b' = config b \<and> spec b' = spec b \<and> pclients b' = pclients b \<and>
     trace b' = trace b @ [EvReceivePush c route timeout]"
  by (auto simp: PClient_ReceivePush_def split: prod.splits)

lemma PClient_Disconnect_frame [simp]:
  "client (PClient_Disconnect e c b) = client b"
  "storage (PClient_Disconnect e c b) = storage b"
  "host (PClient_Disconnect e c b) = host b"
  "config (PClient_Disconnect e c b) = config b"
  "spec (PClient_Disconnect e c b) = spec b"
  "trace (PClient_Disconnect e c b) = trace b @ [EvDisconnect c]"
  "length (pclients (PClient_Disconnect e c b)) = length (pclients b)"
  by (simp_all add: PClient_Disconnect_def)

lemma PClient_StartListening_frame [simp]:
  "client (PClient_StartListening e c b) = client b"
  "storage (PClient_StartListening e c b) = storage b"
  "host (PClient_StartListening e c b) = host b"
  "config (PClient_StartListening e c b) = config b"
  "spec (PClient_StartListening e c b) = spec b"
  "trace (PClient_StartListening e c b) = trace b @ [EvStartListening c]"
  "length (pclients (PClient_StartListening e c b)) = length (pclients b)"
  by (simp_all add: PClient_StartListening_def)

lemma PClient_Connected_Disconnect [simp]:
  "PClient_Connected r (PClient_Disconnect e c b) = (r \<noteq> c \<and> PClient_Connected r b)"
  by (cases "r = c") (auto simp: PClient_Connected_def PClient_Disconnect_def)

lemma PClient_Connected_StartListening [simp]:
  "PClient_Connected r (PClient_StartListening e c b) = PClient_Connected r b"
  by (cases "r = c") (auto simp: PClient_Connected_def PClient_StartListening_def)

subsection \<open>Client, storage and trace across the methods\<close>

lemma Connect_client: "client b \<noteq> None \<Longrightarrow> client (state_of (Connect e hosts b)) \<noteq> None"
  by (auto simp: Connect_def startListening_def Let_def dest!: NewPClient_frame split: prod.splits sum.splits list.splits)

lemma Reconnect_client: "client b \<noteq> None \<Longrightarrow> client (state_of (Reconnect e b)) \<noteq> None"
proof -
  assume "client b \<noteq> None"
  then obtain c where c: "client b = Some c" by auto
  have "client (PClient_Disconnect e c b) \<noteq> None" using c by simp
  from Connect_client [OF this, of e "[]"] show ?thesis
    using c by (cases "Connect e [] (PClient_Disconnect e c b)") (simp_all add: Reconnect_def Disconnect_def)
qed

lemma Connect_storage: "storage (state_of (Connect e hosts b)) = storage b"
  by (auto simp: Connect_def startListening_def Let_def dest!: NewPClient_frame split: prod.splits sum.splits list.splits)

lemma Disconnect_storage: "storage (state_of (Disconnect e b)) = storage b"
  by (simp add: Disconnect_def split: option.splits)

lemma Reconnect_storage: "storage (state_of (Reconnect e b)) = storage b"
proof (cases "client b")
  case None
  then show ?thesis by (simp add: Reconnect_def Disconnect_def)
next
  case (Some c)
  have "storage (state_of (Connect e [] (PClient_Disconnect e c b))) = storage b"
    by (simp add: Connect_storage)
  then show ?thesis using Some
    by (cases "Connect e [] (PClient_Disconnect e c b)") (simp_all add: Reconnect_def Disconnect_def)
qed

lemma discard_Return_None:
  "discard r (\<lambda>b1. Return None b1) \<noteq> Return (Some err) b'"
  by (cases r) simp_all

lemma state_of_discard [simp]:
  "state_of (discard r (Return x)) = state_of r"
  "state_of (discard r Panic) = state_of r"
  by (cases r; simp)+

lemma runFunction_error_state:
  "runFunction e op b = Return (Some err) b' \<Longrightarrow> b' = b"
  by (auto simp: runFunction_def Let_def discard_Return_None split: if_splits sum.splits)

lemma runRequest_error_trace:
  "runRequest e op b = Return (Some err) b' \<Longrightarrow>
     \<exists>evs. trace b' = trace b @ evs \<and> list_all (\<lambda>ev. \<not> is_disconnect ev) evs"
  by (auto simp: runRequest_def Let_def dest!: sendRequest_frame split: sum.splits option.splits prod.splits)

lemma runNotify_error_trace:
  "runNotify e op b = Return (Some err) b' \<Longrightarrow>
     \<exists>evs. trace b' = trace b @ evs \<and> list_all (\<lambda>ev. \<not> is_disconnect ev) evs"
  by (auto simp: runNotify_def Let_def dest!: sendNotify_frame split: sum.splits option.splits prod.splits)

lemma listenToPush_error_trace:
  "listenToPush e op b = Return (Some err) b' \<Longrightarrow>
     \<exists>evs. trace b' = trace b @ evs \<and> list_all (\<lambda>ev. \<not> is_disconnect ev) evs"
  by (auto simp: listenToPush_def Let_def dest!: ReceivePush_frame split: sum.splits option.splits prod.splits)

lemma runOperation_error_trace:
  "runOperation e op b = Return (Some err) b' \<Longrightarrow>
     \<exists>evs. trace b' = trace b @ evs \<and> list_all (\<lambda>ev. \<not> is_disconnect ev) evs"
  by (auto simp: runOperation_def split: if_splits
      dest: runRequest_error_trace runNotify_error_trace listenToPush_error_trace
            runFunction_error_state)

lemma runRequest_client: "client (state_of (runRequest e op b)) = client b"
  by (auto simp: runRequest_def Let_def dest!: sendRequest_frame split: sum.splits option.splits prod.splits)

lemma runNotify_client: "client (state_of (runNotify e op b)) = client b"
  by (auto simp: runNotify_def Let_def dest!: sendNotify_frame split: sum.splits option.splits prod.splits)

lemma listenToPush_client: "client (state_of (listenToPush e op b)) = client b"
  by (auto simp: listenToPush_def Let_def dest!: ReceivePush_frame split: sum.splits option.splits prod.splits)

lemma Disconnect_client: "client (state_of (Disconnect e b)) = client b"
  by (simp add: Disconnect_def split: option.splits)

lemma runFunction_client:
  "client b \<noteq> None \<Longrightarrow> client (state_of (runFunction e op b)) \<noteq> None"
  by (simp add: runFunction_def Let_def Disconnect_client Connect_client Reconnect_client
      del: not_None_eq split: sum.splits)

lemma runOperation_client:
  "client b \<noteq> None \<Longrightarrow> client (state_of (runOperation e op b)) \<noteq> None"
  by (simp add: runOperation_def runRequest_client runNotify_client listenToPush_client
      runFunction_client del: not_None_eq)

lemma runSteps_client:
  "client b \<noteq> None \<Longrightarrow> client (state_of (runSteps e steps b)) \<noteq> None"
proof (induction steps arbitrary: b)
  case Nil
  then show ?case by simp
next
  case (Cons step steps)
  from Cons.prems have c: "client (state_of (runOperation e step b)) \<noteq> None"
    by (rule runOperation_client)
  show ?case
  proof (cases "runOperation e step b")
    case (Return err b1)
    with c have "client b1 \<noteq> None" by simp
    with Return Cons.IH [of b1] show ?thesis by (cases err) auto
  next
    case (Exit b1)
    with c show ?thesis by simp
  next
    case (Panic b1)
    with c show ?thesis by simp
  qed
qed

lemma runSteps_append_fail:
  "runSteps e pre b = Return None bk \<Longrightarrow> runOperation e op bk = Return (Some err) bk' \<Longrightarrow>
     runSteps e (pre @ op # post) b = Return (Some err) bk'"
proof (induction pre arbitrary: b)
  case Nil
  then show ?case by simp
next
  case (Cons step pre)
  show ?case
  proof (cases "runOperation e step b")
    case (Return r b1)
    show ?thesis
    proof (cases r)
      case None
      with Return Cons.prems have "runSteps e pre b1 = Return None bk" by simp
      from Cons.IH [OF this Cons.prems(2)] Return None show ?thesis by simp
    next
      case (Some x)
      with Return Cons.prems show ?thesis by simp
    qed
  next
    case (Exit b1)
    with Cons.prems show ?thesis by simp
  next
    case (Panic b1)
    with Cons.prems show ?thesis by simp
  qed
qed

subsection \<open>Steps other than function steps never disconnect\<close>

lemma runRequest_trace:
  "\<exists>evs. trace (state_of (runRequest e op b)) = trace b @ evs \<and>
         list_all (\<lambda>ev. \<not> is_disconnect ev) evs"
  by (auto simp: runRequest_def Let_def dest!: sendRequest_frame
      split: sum.splits option.splits prod.splits)

lemma runNotify_trace:
  "\<exists>evs. trace (state_of (runNotify e op b)) = trace b @ evs \<and>
         list_all (\<lambda>ev. \<not> is_disconnect ev) evs"
  by (auto simp: runNotify_def Let_def dest!: sendNotify_frame
      split: sum.splits option.splits prod.splits)

lemma listenToPush_trace:
  "\<exists>evs. trace (state_of (listenToPush e op b)) = trace b @ evs \<and>
         list_all (\<lambda>ev. \<not> is_disconnect ev) evs"
  by (auto simp: listenToPush_def Let_def dest!: ReceivePush_frame
      split: sum.splits option.splits prod.splits)

lemma runOperation_trace:
  "Type op \<noteq> ''function'' \<Longrightarrow>
     \<exists>evs. trace (state_of (runOperation e op b)) = trace b @ evs \<and>
           list_all (\<lambda>ev. \<not> is_disconnect ev) evs"
  by (simp add: runOperation_def runRequest_trace runNotify_trace listenToPush_trace)

lemma runOperation_disconnects:
  "Type op \<noteq> ''function'' \<Longrightarrow>
     filter is_disconnect (trace (state_of (runOperation e op b))) = filter is_disconnect (trace b)"
proof -
  assume "Type op \<noteq> ''function''"
  from runOperation_trace [OF this, of e b] obtain evs where
    "trace (state_of (runOperation e op b)) = trace b @ evs"
    "list_all (\<lambda>ev. \<not> is_disconnect ev) evs" by auto
  then show ?thesis by (simp add: list_all_iff)
qed

lemma runSteps_disconnects:
  "\<forall>op\<in>set steps. Type op \<noteq> ''function'' \<Longrightarrow>
     filter is_disconnect (trace (state_of (runSteps e steps b))) = filter is_disconnect (trace b)"
proof (induction steps arbitrary: b)
  case Nil
  then show ?case by simp
next
  case (Cons step steps)
  then have d: "filter is_disconnect (trace (state_of (runOperation e step b)))
      = filter is_disconnect (trace b)"
    by (simp add: runOperation_disconnects)
  show ?case
  proof (cases "runOperation e step b")
    case (Return err b1)
    with d Cons.IH [of b1] Cons.prems show ?thesis by (cases err) auto
  next
    case (Exit b1)
    with d show ?thesis by simp
  next
    case (Panic b1)
    with d show ?thesis by simp
  qed
qed

subsection \<open>At most one live client is an invariant\<close>

lemma at_most_one_live_iff:
  "at_most_one_live b \<longleftrightarrow> (\<forall>r. PClient_Connected r b \<longrightarrow> client b = Some r)"
proof
  assume "at_most_one_live b"
  then have "set (live b) \<subseteq> set_option (client b)" by (simp add: at_most_one_live_def)
  then show "\<forall>r. PClient_Connected r b \<longrightarrow> client b = Some r"
    by (auto simp: live_def PClient_Connected_def)
next
  assume a: "\<forall>r. PClient_Connected r b \<longrightarrow> client b = Some r"
  then have sub: "set (live b) \<subseteq> set_option (client b)"
    by (auto simp: live_def)
  have d: "distinct (live b)" by (simp add: live_def)
  have "card (set (live b)) \<le> card (set_option (client b))"
    by (rule card_mono) (use sub in auto)
  also have "\<dots> \<le> 1" by (cases "client b") simp_all
  finally have "length (live b) \<le> 1" using d by (simp add: distinct_card)
  with sub show "at_most_one_live b" by (simp add: at_most_one_live_def)
qed

lemma PClient_Connected_NewPClient:
  "NewPClient e h t b = (Inl err, b') \<Longrightarrow> PClient_Connected r b' = PClient_Connected r b"
  "NewPClient e h t b = (Inr c, b') \<Longrightarrow>
     PClient_Connected r b' = (r = length (pclients b) \<or> PClient_Connected r b)"
  by (auto simp: NewPClient_def PClient_Connected_def Let_def nth_append
      split: prod.splits option.splits)

lemma Connect_live:
  assumes "at_most_one_live b"
  shows "at_most_one_live (state_of (Connect e hosts b))"
proof -
  define b1 where "b1 = (case hosts of [] \<Rightarrow> b | h # _ \<Rightarrow> b\<lparr>host := h\<rparr>)"
  have c1: "client b1 = client b" and p1: "\<And>r. PClient_Connected r b1 = PClient_Connected r b"
    by (simp_all add: b1_def PClient_Connected_def split: list.splits)
  have inv1: "\<forall>r. PClient_Connected r b1 \<longrightarrow> client b1 = Some r"
    using assms by (simp add: at_most_one_live_iff c1 p1)
  have C: "Connect e hosts b =
      (if (case client b1 of None \<Rightarrow> False | Some c \<Rightarrow> PClient_Connected c b1) then Exit b1
       else (case NewPClient e (host b1) (server_tls (config b1)) b1 of
           (Inl err, b2) \<Rightarrow> Return (Some err) b2
         | (Inr c, b2) \<Rightarrow>
             discard (startListening e (b2\<lparr>client := Some c\<rparr>)) (\<lambda>b3. Return None b3)))"
    unfolding Connect_def Let_def b1_def by (rule refl)
  show ?thesis
  proof (cases "case client b1 of None \<Rightarrow> False | Some c \<Rightarrow> PClient_Connected c b1")
    case True
    then have "Connect e hosts b = Exit b1" by (simp add: C)
    with inv1 show ?thesis by (simp add: at_most_one_live_iff)
  next
    case False
    with inv1 have dead: "\<And>r. \<not> PClient_Connected r b1"
      by (auto split: option.splits)
    obtain res b2 where n: "NewPClient e (host b1) (server_tls (config b1)) b1 = (res, b2)"
      by (cases "NewPClient e (host b1) (server_tls (config b1)) b1")
    show ?thesis
    proof (cases res)
      case (Inl err)
      with n False have "Connect e hosts b = Return (Some err) b2"
        by (simp add: C)
      moreover have "\<And>r. \<not> PClient_Connected r b2"
        using n Inl dead by (simp add: PClient_Connected_NewPClient)
      ultimately show ?thesis by (simp add: at_most_one_live_iff)
    next
      case (Inr c)
      with n False have
        "Connect e hosts b = Return None (PClient_StartListening e c (b2\<lparr>client := Some c\<rparr>))"
        by (simp add: C startListening_def)
      moreover have "c = length (pclients b1)"
        using n Inr by (simp add: NewPClient_pclients)
      moreover have "\<And>r. PClient_Connected r (b2\<lparr>client := Some c\<rparr>) = PClient_Connected r b2"
        by (simp add: PClient_Connected_def)
      moreover have "\<And>r. PClient_Connected r b2 = (r = length (pclients b1))"
        using n Inr dead by (simp add: PClient_Connected_NewPClient)
      ultimately show ?thesis by (simp add: at_most_one_live_iff)
    qed
  qed
qed

lemma Disconnect_live:
  "at_most_one_live b \<Longrightarrow> at_most_one_live (state_of (Disconnect e b))"
  by (auto simp: at_most_one_live_iff Disconnect_def split: option.splits)

lemma Reconnect_live:
  assumes "at_most_one_live b"
  shows "at_most_one_live (state_of (Reconnect e b))"
proof (cases "Disconnect e b")
  case (Return err b1)
  with Disconnect_live [OF assms, of e] have "at_most_one_live b1" by simp
  from Connect_live [OF this, of e "[]"] Return show ?thesis
    by (cases "Connect e [] b1") (simp_all add: Reconnect_def)
next
  case (Exit b1)
  with Disconnect_live [OF assms, of e] show ?thesis by (simp add: Reconnect_def)
next
  case (Panic b1)
  with Disconnect_live [OF assms, of e] show ?thesis by (simp add: Reconnect_def)
qed

lemma runRequest_live:
  "at_most_one_live b \<Longrightarrow> at_most_one_live (state_of (runRequest e op b))"
  by (auto simp: at_most_one_live_iff PClient_Connected_def runRequest_def Let_def
      dest!: sendRequest_frame split: sum.splits option.splits prod.splits)

lemma runNotify_live:
  "at_most_one_live b \<Longrightarrow> at_most_one_live (state_of (runNotify e op b))"
  by (auto simp: at_most_one_live_iff PClient_Connected_def runNotify_def Let_def
      dest!: sendNotify_frame split: sum.splits option.splits prod.splits)

lemma listenToPush_live:
  "at_most_one_live b \<Longrightarrow> at_most_one_live (state_of (listenToPush e op b))"
  by (auto simp: at_most_one_live_iff PClient_Connected_def listenToPush_def Let_def
      dest!: ReceivePush_frame split: sum.splits option.splits prod.splits)

lemma runFunction_live:
  "at_most_one_live b \<Longrightarrow> at_most_one_live (state_of (runFunction e op b))"
  by (simp add: runFunction_def Let_def Disconnect_live Connect_live Reconnect_live
      split: sum.splits)

lemma runOperation_live:
  "at_most_one_live b \<Longrightarrow> at_most_one_live (state_of (runOperation e op b))"
  by (simp add: runOperation_def runRequest_live runNotify_live listenToPush_live
      runFunction_live)

lemma runSteps_live:
  "at_most_one_live b \<Longrightarrow> at_most_one_live (state_of (runSteps e steps b))"
proof (induction steps arbitrary: b)
  case Nil
  then show ?case by simp
next
  case (Cons step steps)
  from Cons.prems have c: "at_most_one_live (state_of (runOperation e step b))"
    by (rule runOperation_live)
  show ?case
  proof (cases "runOperation e step b")
    case (Return err b1)
    with c have "at_most_one_live b1" by simp
    with Return Cons.IH [of b1] show ?thesis by (cases err) auto
  next
    case (Exit b1)
    with c show ?thesis by simp
  next
    case (Panic b1)
    with c show ?thesis by simp
  qed
qed

lemma Run_live:
  assumes "at_most_one_live b"
  shows "at_most_one_live (state_of (Run e b))"
proof -
  have s: "at_most_one_live (state_of (runSteps e (spec b) b))"
    using assms by (rule runSteps_live)
  show ?thesis
  proof (cases "runSteps e (spec b) b")
    case (Return err b1)
    with s Disconnect_live [of b1 e] show ?thesis by (simp add: Run_def)
  next
    case (Exit b1)
    with s show ?thesis by (simp add: Run_def)
  next
    case (Panic b1)
    with s Disconnect_live [of b1 e] show ?thesis by (simp add: Run_def)
  qed
qed

lemma NewSequentialBot_live:
  "at_most_one_live (state_of (NewSequentialBot e cfg sp i n))"
proof -
  let ?bot = "\<lparr>client = None, config = cfg, bot_id = i, spec = sp,
                 storage = newStorage cfg, host = server_host cfg,
                 pclients = [], net = n, trace = []\<rparr>"
  have "at_most_one_live ?bot" by (simp add: at_most_one_live_iff PClient_Connected_def)
  from Connect_live [OF this, of e "[]"] show ?thesis
    by (cases "Connect e [] ?bot") (auto simp: NewSequentialBot_def split: option.splits)
qed

lemma reachable_live: "reachable e b \<Longrightarrow> at_most_one_live b"
proof (induction rule: reachable.induct)
  case (reach_new cfg sp i n b)
  with NewSequentialBot_live [of e cfg sp i n] show ?case by simp
next
  case (reach_Connect b hosts err b')
  with Connect_live [of b e hosts] show ?case by simp
next
  case (reach_Disconnect b err b')
  with Disconnect_live [of b e] show ?case by simp
next
  case (reach_Reconnect b err b')
  with Reconnect_live [of b e] show ?case by simp
next
  case (reach_runOperation b op err b')
  with runOperation_live [of b e op] show ?case by simp
next
  case (reach_Run b err b')
  with Run_live [of b e] show ?case by simp
qed

subsection \<open>What \<open>Connect\<close> does when the client is not connected\<close>

lemma Connect_dials:
  assumes "\<not> (case client b of None \<Rightarrow> False | Some c \<Rightarrow> PClient_Connected c b)"
  shows "\<exists>err b' evs. Connect e hosts b = Return err b' \<and>
           host b' = (case hosts of [] \<Rightarrow> host b | h # _ \<Rightarrow> h) \<and>
           trace b' = trace b @
             EvNewPClient (case hosts of [] \<Rightarrow> host b | h # _ \<Rightarrow> h) (server_tls (config b)) # evs \<and>
           (evs = [] \<or> (\<exists>c'. evs = [EvStartListening c']))"
proof -
  define b1 where "b1 = (case hosts of [] \<Rightarrow> b | h # _ \<Rightarrow> b\<lparr>host := h\<rparr>)"
  have f1: "client b1 = client b" "trace b1 = trace b" "config b1 = config b"
    "host b1 = (case hosts of [] \<Rightarrow> host b | h # _ \<Rightarrow> h)"
    and p1: "\<And>r. PClient_Connected r b1 = PClient_Connected r b"
    by (simp_all add: b1_def PClient_Connected_def split: list.splits)
  have C: "Connect e hosts b =
      (if (case client b1 of None \<Rightarrow> False | Some c \<Rightarrow> PClient_Connected c b1) then Exit b1
       else (case NewPClient e (host b1) (server_tls (config b1)) b1 of
           (Inl err, b2) \<Rightarrow> Return (Some err) b2
         | (Inr c, b2) \<Rightarrow>
             discard (startListening e (b2\<lparr>client := Some c\<rparr>)) (\<lambda>b3. Return None b3)))"
    unfolding Connect_def Let_def b1_def by (rule refl)
  from assms have nc: "\<not> (case client b1 of None \<Rightarrow> False | Some c \<Rightarrow> PClient_Connected c b1)"
    by (simp add: f1 p1 split: option.splits)
  obtain res b2 where n: "NewPClient e (host b1) (server_tls (config b1)) b1 = (res, b2)"
    by (cases "NewPClient e (host b1) (server_tls (config b1)) b1")
  note fr = NewPClient_frame [OF n]
  show ?thesis
  proof (cases res)
    case (Inl err)
    with n nc have "Connect e hosts b = Return (Some err) b2" by (simp add: C)
    with fr f1 show ?thesis by simp
  next
    case (Inr c)
    with n nc have
      "Connect e hosts b = Return None (PClient_StartListening e c (b2\<lparr>client := Some c\<rparr>))"
      by (simp add: C startListening_def)
    with fr f1 show ?thesis by simp
  qed
qed

lemma Connect_host:
  "host (state_of (Connect e hosts b)) = (case hosts of [] \<Rightarrow> host b | h # _ \<Rightarrow> h)"
  by (auto simp: Connect_def startListening_def Let_def dest!: NewPClient_frame
      split: prod.splits sum.splits list.splits)

lemma Disconnect_host: "host (state_of (Disconnect e b)) = host b"
  by (simp add: Disconnect_def split: option.splits)

lemma Reconnect_unfold:
  "client b = Some c \<Longrightarrow>
     Reconnect e b = discard (Connect e [] (PClient_Disconnect e c b)) (\<lambda>b2. Return None b2)"
  by (simp add: Reconnect_def Disconnect_def)

lemma Reconnect_host: "host (state_of (Reconnect e b)) = host b"
  by (cases "client b") (simp_all add: Reconnect_def Disconnect_def Connect_host)

lemma Reconnect_dials:
  assumes "client b = Some c"
  shows "\<exists>b' evs. Reconnect e b = Return None b' \<and>
           trace b' = trace b @
             EvDisconnect c # EvNewPClient (host b) (server_tls (config b)) # evs \<and>
           (evs = [] \<or> (\<exists>c'. evs = [EvStartListening c']))"
proof -
  let ?b1 = "PClient_Disconnect e c b"
  have "\<not> (case client ?b1 of None \<Rightarrow> False | Some c \<Rightarrow> PClient_Connected c ?b1)"
    using assms by simp
  from Connect_dials [OF this, of e "[]"] obtain err b' evs where
    "Connect e [] ?b1 = Return err b'"
    "trace b' = trace ?b1 @ EvNewPClient (host ?b1) (server_tls (config ?b1)) # evs"
    "evs = [] \<or> (\<exists>c'. evs = [EvStartListening c'])"
    by auto
  then show ?thesis using assms by (simp add: Reconnect_unfold)
qed

lemma Connect_dial_fails:
  assumes "\<not> (case client b of None \<Rightarrow> False | Some c \<Rightarrow> PClient_Connected c b)"
    and "net_dial e (net b) h (server_tls (config b)) = (Some err, n)"
  shows "Connect e (h # hs) b =
           Return (Some err)
             (b\<lparr>host := h, net := n, trace := trace b @ [EvNewPClient h (server_tls (config b))]\<rparr>)"
  using assms
  by (simp add: Connect_def Let_def NewPClient_def PClient_Connected_def split: option.splits)

subsection \<open>The lifecycle methods do not read the storage\<close>

lemma put_storage_discard:
  "(\<And>b1. k (b1\<lparr>storage := st\<rparr>) = put_storage st (k b1)) \<Longrightarrow>
     discard (put_storage st r) k = put_storage st (discard r k)"
  by (cases r) simp_all

lemma Disconnect_put_storage:
  "Disconnect e (b\<lparr>storage := st\<rparr>) = put_storage st (Disconnect e b)"
  by (simp add: Disconnect_def PClient_Disconnect_def split: option.splits)

lemma Connect_put_storage:
  "Connect e hosts (b\<lparr>storage := st\<rparr>) = put_storage st (Connect e hosts b)"
  by (simp add: Connect_def Let_def NewPClient_def PClient_Connected_def startListening_def
      PClient_StartListening_def split: list.splits option.splits prod.splits)

lemma Reconnect_put_storage:
  "Reconnect e (b\<lparr>storage := st\<rparr>) = put_storage st (Reconnect e b)"
  by (simp add: Reconnect_def Disconnect_put_storage Connect_put_storage put_storage_discard)

subsection \<open>Evaluating the concrete bot\<close>

lemmas eval_defs = runOperation_def runRequest_def runNotify_def runFunction_def
  listenToPush_def Disconnect_def startListening_def Connect_def Reconnect_def Run_def
  NewPClient_def PClient_Connected_def PClient_Disconnect_def PClient_StartListening_def
  PClient_ReceivePush_def sendRequest_def sendNotify_def env0_def cfg0_def op0_def bot0_def

lemma reachable_bot0: "reachable env0 bot0"
proof -
  have "NewSequentialBot env0 cfg0 [] 1 0 = Return None bot0"
    by (simp add: NewSequentialBot_def Connect_def NewPClient_def startListening_def
        PClient_StartListening_def newStorage_def env0_def cfg0_def bot0_def)
  then show ?thesis by (rule reach_new)
qed

subsection \<open>Validation and storing in the listen and the request handler\<close>

text \<open>
  Once the push (for the request: the response) is there, both handlers call
  \<open>validateExpectations\<close> on the expectation of the step, the payload and the
  storage, and only when it succeeds \<open>storeData\<close>, whose error and storage they
  return. When the validation fails, neither stores. What the two handlers
  return then differs: see the evaluation of the two steps below.
\<close>

lemma listenToPush_validates_like_runRequest:
  "(client b = Some c \<and>
    PClient_ReceivePush e c (URI op) (Timeout op) b = (Inr resp, b1) \<longrightarrow>
      storage b1 = storage b \<and>
      (case validateExpectations e (Expect op) resp (storage b) of
         Some err \<Rightarrow> listenToPush e op b = Return (Some err) b1
       | None \<Rightarrow>
           listenToPush e op b =
             Return (fst (storeData e (Store op) (storage b) resp))
               (b1\<lparr>storage := snd (storeData e (Store op) (storage b) resp)\<rparr>))) \<and>
   (client b = Some c \<and> buildArgs e (Args op) (storage b) = Inr args \<and>
    sendRequest e args (URI op) c b = (Inr (resp, rawResp), b2) \<longrightarrow>
      storage b2 = storage b \<and>
      (case validateExpectations e (Expect op) resp (storage b) of
         Some err \<Rightarrow>
           runRequest e op b = Return (Some (NewExpectError err rawResp (Expect op))) b2
       | None \<Rightarrow>
           runRequest e op b =
             Return (fst (storeData e (Store op) (storage b) resp))
               (b2\<lparr>storage := snd (storeData e (Store op) (storage b) resp)\<rparr>)))"
proof (intro conjI impI)
  assume a: "client b = Some c \<and>
    PClient_ReceivePush e c (URI op) (Timeout op) b = (Inr resp, b1)"
  then show st: "storage b1 = storage b" by (auto dest: ReceivePush_frame)
  show "case validateExpectations e (Expect op) resp (storage b) of
         Some err \<Rightarrow> listenToPush e op b = Return (Some err) b1
       | None \<Rightarrow>
           listenToPush e op b =
             Return (fst (storeData e (Store op) (storage b) resp))
               (b1\<lparr>storage := snd (storeData e (Store op) (storage b) resp)\<rparr>)"
    using a st by (simp add: listenToPush_def split: option.splits prod.splits)
next
  assume a: "client b = Some c \<and> buildArgs e (Args op) (storage b) = Inr args \<and>
    sendRequest e args (URI op) c b = (Inr (resp, rawResp), b2)"
  then show st: "storage b2 = storage b" by (auto dest: sendRequest_frame)
  show "case validateExpectations e (Expect op) resp (storage b) of
         Some err \<Rightarrow>
           runRequest e op b = Return (Some (NewExpectError err rawResp (Expect op))) b2
       | None \<Rightarrow>
           runRequest e op b =
             Return (fst (storeData e (Store op) (storage b) resp))
               (b2\<lparr>storage := snd (storeData e (Store op) (storage b) resp)\<rparr>)"
    using a st by (simp add: runRequest_def split: option.splits prod.splits)
qed

lemma listenToPush_validates_like_runRequest_example:
  "client bot0 = Some 0 \<and>
   PClient_ReceivePush env0 0 ''room.join'' 0 bot0
     = (Inr (VString ''pushed''),
        bot0\<lparr>trace := trace bot0 @ [EvReceivePush 0 ''room.join'' 0]\<rparr>) \<and>
   listenToPush env0 (op0\<lparr>Type := ''listen''\<rparr>) bot0
     = Return (Some (External ''mismatch''))
         (bot0\<lparr>trace := trace bot0 @ [EvReceivePush 0 ''room.join'' 0]\<rparr>) \<and>
   listenToPush env0 (op0\<lparr>Type := ''listen'', Expect := VString ''pushed''\<rparr>) bot0
     = Return None
         (bot0\<lparr>trace := trace bot0 @ [EvReceivePush 0 ''room.join'' 0],
               storage := [''last'' \<mapsto> VString ''pushed'']\<rparr>) \<and>
   sendRequest env0 Map.empty ''room.join'' 0 bot0
     = (Inr (VString ''pong'', ''raw pong''),
        bot0\<lparr>trace := trace bot0 @ [EvRequest 0 ''room.join'' Map.empty]\<rparr>) \<and>
   runRequest env0 op0 bot0
     = Return None
         (bot0\<lparr>trace := trace bot0 @ [EvRequest 0 ''room.join'' Map.empty],
               storage := [''last'' \<mapsto> VString ''pong'']\<rparr>)"
  using listenToPush_validates_like_runRequest [of bot0 0 env0 "op0\<lparr>Type := ''listen''\<rparr>"
      "VString ''pushed''" "bot0\<lparr>trace := trace bot0 @ [EvReceivePush 0 ''room.join'' 0]\<rparr>"]
    listenToPush_validates_like_runRequest [of bot0 0 env0
      "op0\<lparr>Type := ''listen'', Expect := VString ''pushed''\<rparr>"
      "VString ''pushed''" "bot0\<lparr>trace := trace bot0 @ [EvReceivePush 0 ''room.join'' 0]\<rparr>"]
    listenToPush_validates_like_runRequest [of bot0 0 env0 op0 "VString ''pong''" _ Map.empty
      "''raw pong''" "bot0\<lparr>trace := trace bot0 @ [EvRequest 0 ''room.join'' Map.empty]\<rparr>"]
  by (simp add: eval_defs)

section \<open>Properties of the bot\<close>

text \<open>
  C1. For every scenario \<open>pre @ op # post\<close> whose steps \<open>pre\<close> succeed and whose
  step \<open>op\<close> returns an error, \<open>Run\<close> returns that error; no step of \<open>post\<close>
  runs: the trace of \<open>Run\<close> is the trace up to the failing step, where the
  failing step itself made no disconnect, and then exactly one disconnect, the
  deferred one. On the successful path \<open>Run\<close> returns no error and its trace is
  the trace of the steps followed by exactly one disconnect. When none of the
  steps that ran is a function step (a scripted disconnect or reconnect makes a
  call of its own), the deferred disconnect is the only one of the whole run.
  (The bot holds a client, as every bot made by \<open>NewSequentialBot\<close> does.)
\<close>

theorem Run_fails_fast:
  assumes "client b \<noteq> None"
  shows "(spec b = pre @ op # post \<and> runSteps e pre b = Return None bk \<and>
          runOperation e op bk = Return (Some err) bk' \<longrightarrow>
            (\<exists>c evs. client bk' = Some c \<and>
               Run e b = Return (Some err) (PClient_Disconnect e c bk') \<and>
               trace bk' = trace bk @ evs \<and> list_all (\<lambda>ev. \<not> is_disconnect ev) evs \<and>
               trace (state_of (Run e b)) = trace bk @ evs @ [EvDisconnect c] \<and>
               ((\<forall>x\<in>set pre. Type x \<noteq> ''function'') \<longrightarrow>
                  filter is_disconnect (trace (state_of (Run e b)))
                    = filter is_disconnect (trace b) @ [EvDisconnect c]))) \<and>
         (runSteps e (spec b) b = Return None b' \<longrightarrow>
            (\<exists>c. client b' = Some c \<and>
               Run e b = Return None (PClient_Disconnect e c b') \<and>
               trace (state_of (Run e b)) = trace b' @ [EvDisconnect c] \<and>
               ((\<forall>x\<in>set (spec b). Type x \<noteq> ''function'') \<longrightarrow>
                  filter is_disconnect (trace (state_of (Run e b)))
                    = filter is_disconnect (trace b) @ [EvDisconnect c])))"
proof (intro conjI impI)
  assume h: "spec b = pre @ op # post \<and> runSteps e pre b = Return None bk \<and>
          runOperation e op bk = Return (Some err) bk'"
  then have steps: "runSteps e (spec b) b = Return (Some err) bk'"
    by (simp add: runSteps_append_fail)
  from runSteps_client [OF assms, of e "spec b"] steps obtain c where c: "client bk' = Some c"
    by auto
  from h obtain evs where evs: "trace bk' = trace bk @ evs" "list_all (\<lambda>ev. \<not> is_disconnect ev) evs"
    using runOperation_error_trace by blast
  have run: "Run e b = Return (Some err) (PClient_Disconnect e c bk')"
    using steps c by (simp add: Run_def Disconnect_def)
  have cnt: "filter is_disconnect (trace (state_of (Run e b)))
                    = filter is_disconnect (trace b) @ [EvDisconnect c]"
    if "\<forall>x\<in>set pre. Type x \<noteq> ''function''"
  proof -
    from runSteps_disconnects [OF that, of e b] h
    have "filter is_disconnect (trace bk) = filter is_disconnect (trace b)" by simp
    with evs run show ?thesis by (simp add: list_all_iff)
  qed
  show "\<exists>c evs. client bk' = Some c \<and>
               Run e b = Return (Some err) (PClient_Disconnect e c bk') \<and>
               trace bk' = trace bk @ evs \<and> list_all (\<lambda>ev. \<not> is_disconnect ev) evs \<and>
               trace (state_of (Run e b)) = trace bk @ evs @ [EvDisconnect c] \<and>
               ((\<forall>x\<in>set pre. Type x \<noteq> ''function'') \<longrightarrow>
                  filter is_disconnect (trace (state_of (Run e b)))
                    = filter is_disconnect (trace b) @ [EvDisconnect c])"
    using c evs run cnt by auto
next
  assume steps: "runSteps e (spec b) b = Return None b'"
  from runSteps_client [OF assms, of e "spec b"] steps obtain c where c: "client b' = Some c"
    by auto
  have run: "Run e b = Return None (PClient_Disconnect e c b')"
    using steps c by (simp add: Run_def Disconnect_def)
  have cnt: "filter is_disconnect (trace (state_of (Run e b)))
                    = filter is_disconnect (trace b) @ [EvDisconnect c]"
    if "\<forall>x\<in>set (spec b). Type x \<noteq> ''function''"
  proof -
    from runSteps_disconnects [OF that, of e b] steps
    have "filter is_disconnect (trace b') = filter is_disconnect (trace b)" by simp
    with run show ?thesis by simp
  qed
  show "\<exists>c. client b' = Some c \<and>
               Run e b = Return None (PClient_Disconnect e c b') \<and>
               trace (state_of (Run e b)) = trace b' @ [EvDisconnect c] \<and>
               ((\<forall>x\<in>set (spec b). Type x \<noteq> ''function'') \<longrightarrow>
                  filter is_disconnect (trace (state_of (Run e b)))
                    = filter is_disconnect (trace b) @ [EvDisconnect c])"
    using c run cnt by auto
qed

theorem Run_fails_fast_witness:
  "client (bot0\<lparr>spec := [op0, op0\<lparr>Type := ''sleep''\<rparr>, op0]\<rparr>) \<noteq> None \<and>
   runSteps env0 [op0] (bot0\<lparr>spec := [op0, op0\<lparr>Type := ''sleep''\<rparr>, op0]\<rparr>)
     = Return None (state_of (runSteps env0 [op0] (bot0\<lparr>spec := [op0, op0\<lparr>Type := ''sleep''\<rparr>, op0]\<rparr>))) \<and>
   runOperation env0 (op0\<lparr>Type := ''sleep''\<rparr>)
       (state_of (runSteps env0 [op0] (bot0\<lparr>spec := [op0, op0\<lparr>Type := ''sleep''\<rparr>, op0]\<rparr>)))
     = Return (Some (Errorf ''Unknown type: sleep''))
       (state_of (runSteps env0 [op0] (bot0\<lparr>spec := [op0, op0\<lparr>Type := ''sleep''\<rparr>, op0]\<rparr>))) \<and>
   trace (state_of (Run env0 (bot0\<lparr>spec := [op0, op0\<lparr>Type := ''sleep''\<rparr>, op0]\<rparr>)))
     = [EvNewPClient ''game'' False, EvStartListening 0, EvRequest 0 ''room.join'' Map.empty,
        EvDisconnect 0] \<and>
   filter is_disconnect
       (trace (state_of (Run env0 (bot0\<lparr>spec := [op0, op0\<lparr>Type := ''sleep''\<rparr>, op0]\<rparr>))))
     = [EvDisconnect 0] \<and>
   runSteps env0 [op0] (bot0\<lparr>spec := [op0]\<rparr>)
     = Return None (state_of (runSteps env0 [op0] (bot0\<lparr>spec := [op0]\<rparr>))) \<and>
   trace (state_of (Run env0 (bot0\<lparr>spec := [op0]\<rparr>)))
     = [EvNewPClient ''game'' False, EvStartListening 0, EvRequest 0 ''room.join'' Map.empty,
        EvDisconnect 0]"
  using Run_fails_fast [of "bot0\<lparr>spec := [op0, op0\<lparr>Type := ''sleep''\<rparr>, op0]\<rparr>"
      "[op0]" "op0\<lparr>Type := ''sleep''\<rparr>" "[op0]" env0
      "state_of (runSteps env0 [op0] (bot0\<lparr>spec := [op0, op0\<lparr>Type := ''sleep''\<rparr>, op0]\<rparr>))"
      "Errorf ''Unknown type: sleep''"
      "state_of (runSteps env0 [op0] (bot0\<lparr>spec := [op0, op0\<lparr>Type := ''sleep''\<rparr>, op0]\<rparr>))"]
    Run_fails_fast [of "bot0\<lparr>spec := [op0]\<rparr>" "[]" op0 "[]" env0 _ _ _
      "state_of (runSteps env0 [op0] (bot0\<lparr>spec := [op0]\<rparr>))"]
  by (simp add: eval_defs)

text \<open>
  C2. The source at a \<open>connect\<close> function step whose dial fails: \<open>Connect\<close>
  returns the error of the dial, \<open>runFunction\<close> drops it and returns no error,
  and \<open>Run\<close> goes on with the next step, on the client that was disconnected,
  and reports success.
\<close>

theorem connect_failure_is_dropped:
  "Connect env0 [''down''] (state_of (Disconnect env0 bot0))
     = Return (Some (External ''dial failed''))
         ((state_of (Disconnect env0 bot0))
            \<lparr>host := ''down'',
             trace := trace bot0 @ [EvDisconnect 0, EvNewPClient ''down'' False]\<rparr>) \<and>
   runFunction env0
       (op0\<lparr>Type := ''function'', URI := ''connect'', Args := [''host'' \<mapsto> VString ''down'']\<rparr>)
       (state_of (Disconnect env0 bot0))
     = Return None
         ((state_of (Disconnect env0 bot0))
            \<lparr>host := ''down'',
             trace := trace bot0 @ [EvDisconnect 0, EvNewPClient ''down'' False]\<rparr>) \<and>
   Run env0 (bot0\<lparr>spec :=
       [op0\<lparr>Type := ''function'', URI := ''disconnect''\<rparr>,
        op0\<lparr>Type := ''function'', URI := ''connect'', Args := [''host'' \<mapsto> VString ''down'']\<rparr>,
        op0]\<rparr>)
     = Return None (state_of (Run env0 (bot0\<lparr>spec :=
       [op0\<lparr>Type := ''function'', URI := ''disconnect''\<rparr>,
        op0\<lparr>Type := ''function'', URI := ''connect'', Args := [''host'' \<mapsto> VString ''down'']\<rparr>,
        op0]\<rparr>))) \<and>
   trace (state_of (Run env0 (bot0\<lparr>spec :=
       [op0\<lparr>Type := ''function'', URI := ''disconnect''\<rparr>,
        op0\<lparr>Type := ''function'', URI := ''connect'', Args := [''host'' \<mapsto> VString ''down'']\<rparr>,
        op0]\<rparr>)))
     = [EvNewPClient ''game'' False, EvStartListening 0, EvDisconnect 0,
        EvNewPClient ''down'' False, EvRequest 0 ''room.join'' Map.empty, EvDisconnect 0]"
  by (simp add: eval_defs Let_def)

text \<open>
  C3. The source at a listen step and at a request step whose expectation does
  not match the payload, with the same validator and the same expectation. The
  request step returns the validator's error wrapped by \<^verbatim>\<open>NewExpectError\<close>,
  with the raw response and the expectation of the step. The listen step
  returns the validator's error as it is: the error carries neither a raw
  response nor the expectation, so the two steps do not fail with the same
  form of error.
\<close>

theorem listen_mismatch_is_not_wrapped:
  "runOperation env0 (op0\<lparr>Type := ''listen'', Expect := VString ''ping''\<rparr>) bot0
     = Return (Some (External ''mismatch''))
         (bot0\<lparr>trace := trace bot0 @ [EvReceivePush 0 ''room.join'' 0]\<rparr>) \<and>
   runOperation env0 (op0\<lparr>Type := ''request'', Expect := VString ''ping''\<rparr>) bot0
     = Return (Some (NewExpectError (External ''mismatch'') ''raw pong'' (VString ''ping'')))
         (bot0\<lparr>trace := trace bot0 @ [EvRequest 0 ''room.join'' Map.empty]\<rparr>) \<and>
   External ''mismatch'' \<noteq> NewExpectError (External ''mismatch'') ''raw pong'' (VString ''ping'')"
  by (simp add: eval_defs)

text \<open>
  C4. Every reachable state has at most one live Protocol Client, and a live
  client is the one the bot holds. \<open>Connect\<close> on a bot whose client is connected
  ends the process (the fatal log) and leaves the client, the list of clients
  and the trace as they were: no new client is made or assigned.
\<close>

theorem at_most_one_live_client:
  "(reachable e b \<longrightarrow> at_most_one_live b) \<and>
   (client b = Some c \<and> PClient_Connected c b \<longrightarrow>
      Connect e hosts b = Exit (case hosts of [] \<Rightarrow> b | h # _ \<Rightarrow> b\<lparr>host := h\<rparr>) \<and>
      client (state_of (Connect e hosts b)) = Some c \<and>
      pclients (state_of (Connect e hosts b)) = pclients b \<and>
      trace (state_of (Connect e hosts b)) = trace b)"
proof (intro conjI impI)
  assume "reachable e b"
  then show "at_most_one_live b" by (rule reachable_live)
next
  assume h: "client b = Some c \<and> PClient_Connected c b"
  then show x: "Connect e hosts b = Exit (case hosts of [] \<Rightarrow> b | h # _ \<Rightarrow> b\<lparr>host := h\<rparr>)"
    by (simp add: Connect_def Let_def PClient_Connected_def split: list.splits)
  from h show "client (state_of (Connect e hosts b)) = Some c"
    by (simp add: x split: list.splits)
  show "pclients (state_of (Connect e hosts b)) = pclients b"
    by (simp add: x split: list.splits)
  show "trace (state_of (Connect e hosts b)) = trace b"
    by (simp add: x split: list.splits)
qed

theorem at_most_one_live_client_witness:
  "reachable env0 bot0 \<and> at_most_one_live bot0 \<and> live bot0 = [0] \<and>
   client bot0 = Some 0 \<and> PClient_Connected 0 bot0 \<and>
   Connect env0 [''other''] bot0 = Exit (bot0\<lparr>host := ''other''\<rparr>)"
  using at_most_one_live_client [of env0 bot0 0 "[''other'']"] reachable_bot0
  by (simp add: bot0_def PClient_Connected_def live_def)

text \<open>
  C5. An operation whose kind is none of request, notify, function, listen fails
  with the unknown-type error, and a function operation whose name is none of
  connect, disconnect, reconnect fails with the unknown-function error; in both
  cases the state returned is the state the step started in, so nothing was
  sent and the trace has no new call.
\<close>

theorem unknown_kind_or_function:
  "(Type op \<notin> {''request'', ''notify'', ''function'', ''listen''} \<longrightarrow>
      runOperation e op b = Return (Some (Errorf (''Unknown type: '' @ Type op))) b) \<and>
   (Type op = ''function'' \<and> URI op \<notin> {''connect'', ''disconnect'', ''reconnect''} \<longrightarrow>
      runOperation e op b = Return (Some (Errorf (''Unknown function: '' @ URI op))) b)"
  by (simp add: runOperation_def runFunction_def)

theorem unknown_kind_or_function_witness:
  "runOperation env0 (op0\<lparr>Type := ''sleep''\<rparr>) bot0
     = Return (Some (Errorf ''Unknown type: sleep'')) bot0 \<and>
   runOperation env0 (op0\<lparr>Type := ''function'', URI := ''restart''\<rparr>) bot0
     = Return (Some (Errorf ''Unknown function: restart'')) bot0"
  using unknown_kind_or_function [of "op0\<lparr>Type := ''sleep''\<rparr>" env0 bot0]
        unknown_kind_or_function [of "op0\<lparr>Type := ''function'', URI := ''restart''\<rparr>" env0 bot0]
  by (simp add: op0_def)

text \<open>
  C6. When the arguments resolve, the request is answered and the validation of
  the expectation fails, \<open>runRequest\<close> returns the error built by
  \<^verbatim>\<open>NewExpectError\<close> from the validator's error, the raw response and the
  expectation of the step. The state returned is the one left by the request:
  its storage is the storage before the step, and the outcome is the same
  whatever \<open>storeData\<close> would compute, since it is not called.
\<close>

theorem runRequest_expectation_mismatch:
  assumes "buildArgs e (Args op) (storage b) = Inr args"
    and "client b = Some c"
    and "sendRequest e args (URI op) c b = (Inr (resp, rawResp), b1)"
    and "validateExpectations e (Expect op) resp (storage b) = Some err"
  shows "runRequest e op b = Return (Some (NewExpectError err rawResp (Expect op))) b1 \<and>
         storage b1 = storage b \<and>
         runRequest (e\<lparr>storeData := sd\<rparr>) op b = runRequest e op b"
proof -
  from assms(3) have st: "storage b1 = storage b" by (simp add: sendRequest_frame)
  have r: "runRequest e op b = Return (Some (NewExpectError err rawResp (Expect op))) b1"
    using assms st by (simp add: runRequest_def)
  have s: "sendRequest (e\<lparr>storeData := sd\<rparr>) args (URI op) c b = sendRequest e args (URI op) c b"
    by (simp add: sendRequest_def)
  have "runRequest (e\<lparr>storeData := sd\<rparr>) op b
          = Return (Some (NewExpectError err rawResp (Expect op))) b1"
    using assms st s by (simp add: runRequest_def)
  with r st show ?thesis by simp
qed

theorem runRequest_expectation_mismatch_witness:
  "buildArgs env0 (Args (op0\<lparr>Expect := VString ''ping''\<rparr>)) (storage bot0) = Inr Map.empty \<and>
   client bot0 = Some 0 \<and>
   sendRequest env0 Map.empty ''room.join'' 0 bot0
     = (Inr (VString ''pong'', ''raw pong''),
        bot0\<lparr>trace := trace bot0 @ [EvRequest 0 ''room.join'' Map.empty]\<rparr>) \<and>
   validateExpectations env0 (VString ''ping'') (VString ''pong'') (storage bot0)
     = Some (External ''mismatch'') \<and>
   runRequest env0 (op0\<lparr>Expect := VString ''ping''\<rparr>) bot0
     = Return (Some (NewExpectError (External ''mismatch'') ''raw pong'' (VString ''ping'')))
         (bot0\<lparr>trace := trace bot0 @ [EvRequest 0 ''room.join'' Map.empty]\<rparr>) \<and>
   storage (bot0\<lparr>trace := trace bot0 @ [EvRequest 0 ''room.join'' Map.empty]\<rparr>) = Map.empty"
  using runRequest_expectation_mismatch [of env0 "op0\<lparr>Expect := VString ''ping''\<rparr>" bot0
      Map.empty 0 "VString ''pong''" "''raw pong''"
      "bot0\<lparr>trace := trace bot0 @ [EvRequest 0 ''room.join'' Map.empty]\<rparr>"
      "External ''mismatch''"]
  by (simp add: eval_defs)

text \<open>
  C7. A notify step leaves the storage as it was, whatever its outcome; its
  outcome does not depend on \<open>validateExpectations\<close> or \<open>storeData\<close>, which it
  never calls; and the only call it can make on the client is the one notify,
  with the resolved arguments.
\<close>

theorem runNotify_only_notifies:
  "storage (state_of (runNotify e op b)) = storage b \<and>
   runNotify (e\<lparr>validateExpectations := v, storeData := sd\<rparr>) op b = runNotify e op b \<and>
   (trace (state_of (runNotify e op b)) = trace b \<or>
    (\<exists>c args. client b = Some c \<and> buildArgs e (Args op) (storage b) = Inr args \<and>
       trace (state_of (runNotify e op b)) = trace b @ [EvNotify c (URI op) args]))"
proof (intro conjI)
  show "storage (state_of (runNotify e op b)) = storage b"
    by (auto simp: runNotify_def Let_def dest!: sendNotify_frame
        split: sum.splits option.splits prod.splits)
  show "runNotify (e\<lparr>validateExpectations := v, storeData := sd\<rparr>) op b = runNotify e op b"
    by (simp add: runNotify_def sendNotify_def split: sum.splits option.splits)
  show "trace (state_of (runNotify e op b)) = trace b \<or>
    (\<exists>c args. client b = Some c \<and> buildArgs e (Args op) (storage b) = Inr args \<and>
       trace (state_of (runNotify e op b)) = trace b @ [EvNotify c (URI op) args])"
    by (auto simp: runNotify_def Let_def dest!: sendNotify_frame
        split: sum.splits option.splits prod.splits)
qed

theorem runNotify_only_notifies_witness:
  "storage (state_of (runNotify env0 (op0\<lparr>Type := ''notify''\<rparr>)
       (bot0\<lparr>storage := [''uid'' \<mapsto> VNum 7]\<rparr>))) = [''uid'' \<mapsto> VNum 7] \<and>
   trace (state_of (runNotify env0 (op0\<lparr>Type := ''notify''\<rparr>)
       (bot0\<lparr>storage := [''uid'' \<mapsto> VNum 7]\<rparr>)))
     = trace bot0 @ [EvNotify 0 ''room.join'' Map.empty]"
  using runNotify_only_notifies [of env0 "op0\<lparr>Type := ''notify''\<rparr>"
      "bot0\<lparr>storage := [''uid'' \<mapsto> VNum 7]\<rparr>"]
  by (simp add: eval_defs)

text \<open>
  C8. \<open>Reconnect\<close> on a bot that holds a client disconnects that client and then
  dials the host stored in the bot, and returns; that is all it does on the
  network besides starting the listener of the new client. \<open>Connect\<close>,
  \<open>Disconnect\<close> and \<open>Reconnect\<close> leave the storage as it was, and none of them
  reads it: with another storage the outcome is the same, but for that storage.
\<close>

theorem lifecycle_leaves_storage:
  "(client b = Some c \<longrightarrow>
      (\<exists>b' evs. Reconnect e b = Return None b' \<and>
         trace b' = trace b @
           EvDisconnect c # EvNewPClient (host b) (server_tls (config b)) # evs \<and>
         (evs = [] \<or> (\<exists>c'. evs = [EvStartListening c'])))) \<and>
   storage (state_of (Connect e hosts b)) = storage b \<and>
   storage (state_of (Disconnect e b)) = storage b \<and>
   storage (state_of (Reconnect e b)) = storage b \<and>
   Connect e hosts (b\<lparr>storage := st\<rparr>) = put_storage st (Connect e hosts b) \<and>
   Disconnect e (b\<lparr>storage := st\<rparr>) = put_storage st (Disconnect e b) \<and>
   Reconnect e (b\<lparr>storage := st\<rparr>) = put_storage st (Reconnect e b)"
proof (intro conjI impI)
  assume "client b = Some c"
  then show "\<exists>b' evs. Reconnect e b = Return None b' \<and>
         trace b' = trace b @
           EvDisconnect c # EvNewPClient (host b) (server_tls (config b)) # evs \<and>
         (evs = [] \<or> (\<exists>c'. evs = [EvStartListening c']))"
    by (rule Reconnect_dials)
qed (simp_all add: Connect_storage Disconnect_storage Reconnect_storage
      Connect_put_storage Disconnect_put_storage Reconnect_put_storage)

theorem lifecycle_leaves_storage_witness:
  "client (bot0\<lparr>storage := [''uid'' \<mapsto> VNum 7]\<rparr>) = Some 0 \<and>
   trace (state_of (Reconnect env0 (bot0\<lparr>storage := [''uid'' \<mapsto> VNum 7]\<rparr>)))
     = trace bot0 @ [EvDisconnect 0, EvNewPClient ''game'' False, EvStartListening 1] \<and>
   storage (state_of (Reconnect env0 (bot0\<lparr>storage := [''uid'' \<mapsto> VNum 7]\<rparr>)))
     = [''uid'' \<mapsto> VNum 7] \<and>
   Reconnect env0 (bot0\<lparr>storage := [''uid'' \<mapsto> VNum 7]\<rparr>)
     = put_storage [''uid'' \<mapsto> VNum 7] (Reconnect env0 bot0)"
  using lifecycle_leaves_storage [of "bot0\<lparr>storage := [''uid'' \<mapsto> VNum 7]\<rparr>" 0 env0 "[]"
      "[''uid'' \<mapsto> VNum 7]"]
  by (simp add: eval_defs)

text \<open>
  C9. In a \<open>connect\<close> function step whose resolved arguments hold a \<open>host\<close> that
  is not a string, the step is \<open>Connect\<close> with the host already stored in the
  bot, its error dropped: it never returns an error, the stored host stays, and
  when the client is not connected the host dialled is the stored one.
\<close>

theorem connect_ignores_non_string_host:
  assumes "URI op = ''connect''"
    and "buildArgs e (Args op) (storage b) = Inr args"
    and "args ''host'' = Some v"
    and "\<forall>h. v \<noteq> VString h"
  shows "runFunction e op b = discard (Connect e [host b] b) (\<lambda>b1. Return None b1) \<and>
         runFunction e op b \<noteq> Return (Some err) b' \<and>
         host (state_of (runFunction e op b)) = host b \<and>
         (\<not> (case client b of None \<Rightarrow> False | Some c \<Rightarrow> PClient_Connected c b) \<longrightarrow>
            (\<exists>b1 evs. runFunction e op b = Return None b1 \<and>
               trace b1 = trace b @ EvNewPClient (host b) (server_tls (config b)) # evs \<and>
               (evs = [] \<or> (\<exists>c'. evs = [EvStartListening c']))))"
proof -
  from assms(4) have "(case v of VString h \<Rightarrow> h | _ \<Rightarrow> host b) = host b"
    by (cases v) simp_all
  with assms have r: "runFunction e op b = discard (Connect e [host b] b) (\<lambda>b1. Return None b1)"
    by (simp add: runFunction_def)
  have "\<exists>b1 evs. runFunction e op b = Return None b1 \<and>
               trace b1 = trace b @ EvNewPClient (host b) (server_tls (config b)) # evs \<and>
               (evs = [] \<or> (\<exists>c'. evs = [EvStartListening c']))"
    if "\<not> (case client b of None \<Rightarrow> False | Some c \<Rightarrow> PClient_Connected c b)"
  proof -
    from Connect_dials [OF that, of e "[host b]"] obtain err1 b1 evs where
      "Connect e [host b] b = Return err1 b1"
      "trace b1 = trace b @ EvNewPClient (host b) (server_tls (config b)) # evs"
      "evs = [] \<or> (\<exists>c'. evs = [EvStartListening c'])"
      by auto
    then show ?thesis by (simp add: r)
  qed
  then show ?thesis
    by (simp add: r discard_Return_None Connect_host)
qed

theorem connect_ignores_non_string_host_witness:
  "URI (op0\<lparr>Type := ''function'', URI := ''connect'', Args := [''host'' \<mapsto> VNum 8080]\<rparr>)
     = ''connect'' \<and>
   buildArgs env0 [''host'' \<mapsto> VNum 8080] Map.empty = Inr [''host'' \<mapsto> VNum 8080] \<and>
   [''host'' \<mapsto> VNum 8080] ''host'' = Some (VNum 8080) \<and>
   host (state_of (runFunction env0
       (op0\<lparr>Type := ''function'', URI := ''connect'', Args := [''host'' \<mapsto> VNum 8080]\<rparr>)
       (state_of (Disconnect env0 bot0)))) = ''game'' \<and>
   trace (state_of (runFunction env0
       (op0\<lparr>Type := ''function'', URI := ''connect'', Args := [''host'' \<mapsto> VNum 8080]\<rparr>)
       (state_of (Disconnect env0 bot0))))
     = trace bot0 @ [EvDisconnect 0, EvNewPClient ''game'' False, EvStartListening 1]"
  using connect_ignores_non_string_host
    [of "op0\<lparr>Type := ''function'', URI := ''connect'', Args := [''host'' \<mapsto> VNum 8080]\<rparr>"
        env0 "state_of (Disconnect env0 bot0)" "[''host'' \<mapsto> VNum 8080]" "VNum 8080"]
  by (simp add: eval_defs)

text \<open>
  C10. \<open>Connect\<close> with an explicit host \<open>h\<close> leaves \<open>h\<close> as the stored host in
  every outcome: the fatal exit on a connected client, the failure to make the
  client, and success. When the client is not connected and the dial fails, the
  error is returned, the client held is the old one, and the stored host is
  \<open>h\<close>. From any state \<open>s\<close> whose stored host is \<open>h\<close>, \<open>Connect\<close> without a host
  (on a client that is not connected) and \<open>Reconnect\<close> dial \<open>h\<close>, and
  \<open>Connect\<close> without a host, \<open>Disconnect\<close> and \<open>Reconnect\<close> keep \<open>h\<close> stored.
\<close>

theorem Connect_host_persists:
  "host (state_of (Connect e (h # hs) b)) = h \<and>
   (\<not> (case client b of None \<Rightarrow> False | Some c \<Rightarrow> PClient_Connected c b) \<and>
    net_dial e (net b) h (server_tls (config b)) = (Some err, n) \<longrightarrow>
      (\<exists>b'. Connect e (h # hs) b = Return (Some err) b' \<and> host b' = h \<and>
         client b' = client b \<and>
         trace b' = trace b @ [EvNewPClient h (server_tls (config b))])) \<and>
   (host s = h \<and> \<not> (case client s of None \<Rightarrow> False | Some c \<Rightarrow> PClient_Connected c s) \<longrightarrow>
      (\<exists>err' s' evs. Connect e [] s = Return err' s' \<and> host s' = h \<and>
         trace s' = trace s @ EvNewPClient h (server_tls (config s)) # evs \<and>
         (evs = [] \<or> (\<exists>c'. evs = [EvStartListening c'])))) \<and>
   (host s = h \<and> client s = Some c \<longrightarrow>
      (\<exists>s' evs. Reconnect e s = Return None s' \<and> host s' = h \<and>
         trace s' = trace s @ EvDisconnect c # EvNewPClient h (server_tls (config s)) # evs \<and>
         (evs = [] \<or> (\<exists>c'. evs = [EvStartListening c'])))) \<and>
   host (state_of (Connect e [] s)) = host s \<and>
   host (state_of (Disconnect e s)) = host s \<and>
   host (state_of (Reconnect e s)) = host s"
proof (intro conjI impI)
  show "host (state_of (Connect e (h # hs) b)) = h" by (simp add: Connect_host)
next
  assume a: "\<not> (case client b of None \<Rightarrow> False | Some c \<Rightarrow> PClient_Connected c b) \<and>
    net_dial e (net b) h (server_tls (config b)) = (Some err, n)"
  then have "Connect e (h # hs) b =
           Return (Some err)
             (b\<lparr>host := h, net := n, trace := trace b @ [EvNewPClient h (server_tls (config b))]\<rparr>)"
    by (simp add: Connect_dial_fails)
  then show "\<exists>b'. Connect e (h # hs) b = Return (Some err) b' \<and> host b' = h \<and>
         client b' = client b \<and>
         trace b' = trace b @ [EvNewPClient h (server_tls (config b))]"
    by simp
next
  assume a: "host s = h \<and> \<not> (case client s of None \<Rightarrow> False | Some c \<Rightarrow> PClient_Connected c s)"
  then have nc: "\<not> (case client s of None \<Rightarrow> False | Some c \<Rightarrow> PClient_Connected c s)" by simp
  from Connect_dials [OF nc, of e "[]"] a
  show "\<exists>err' s' evs. Connect e [] s = Return err' s' \<and> host s' = h \<and>
         trace s' = trace s @ EvNewPClient h (server_tls (config s)) # evs \<and>
         (evs = [] \<or> (\<exists>c'. evs = [EvStartListening c']))"
    by auto
next
  assume a: "host s = h \<and> client s = Some c"
  then have c: "client s = Some c" by simp
  from Reconnect_dials [OF c, of e] obtain s' evs where r:
    "Reconnect e s = Return None s'"
    "trace s' = trace s @ EvDisconnect c # EvNewPClient (host s) (server_tls (config s)) # evs"
    "evs = [] \<or> (\<exists>c'. evs = [EvStartListening c'])"
    by auto
  from r(1) Reconnect_host [of e s] have "host s' = host s" by simp
  with r a show "\<exists>s' evs. Reconnect e s = Return None s' \<and> host s' = h \<and>
         trace s' = trace s @ EvDisconnect c # EvNewPClient h (server_tls (config s)) # evs \<and>
         (evs = [] \<or> (\<exists>c'. evs = [EvStartListening c']))"
    by auto
qed (simp_all add: Connect_host Disconnect_host Reconnect_host)

theorem Connect_host_persists_witness:
  "net_dial env0 (net (state_of (Disconnect env0 bot0))) ''down'' False
     = (Some (External ''dial failed''), 1) \<and>
   Connect env0 [''down''] (state_of (Disconnect env0 bot0))
     = Return (Some (External ''dial failed''))
         ((state_of (Disconnect env0 bot0))
            \<lparr>host := ''down'',
             trace := trace bot0 @ [EvDisconnect 0, EvNewPClient ''down'' False]\<rparr>) \<and>
   host (state_of (Connect env0 [''down''] (state_of (Disconnect env0 bot0)))) = ''down'' \<and>
   trace (state_of (Reconnect env0
       (state_of (Connect env0 [''down''] (state_of (Disconnect env0 bot0))))))
     = trace bot0 @ [EvDisconnect 0, EvNewPClient ''down'' False, EvDisconnect 0,
                     EvNewPClient ''down'' False] \<and>
   trace (state_of (Connect env0 []
       (state_of (Connect env0 [''down''] (state_of (Disconnect env0 bot0))))))
     = trace bot0 @ [EvDisconnect 0, EvNewPClient ''down'' False, EvNewPClient ''down'' False]"
  using Connect_host_persists [of env0 "''down''" "[]" "state_of (Disconnect env0 bot0)"
      "External ''dial failed''" 1
      "state_of (Connect env0 [''down''] (state_of (Disconnect env0 bot0)))" 0]
  by (simp add: eval_defs)

end
